theory Spec2Isabelle
  imports Complex_Main "HOL-Library.Log_Nat"
begin

section \<open>The flush controller of \<^verbatim>\<open>main.py\<close>\<close>

text \<open>
  The controller is a six-state machine driven by \<^verbatim>\<open>update(now_s, presence)\<close>.
  Timestamps and durations are Python floats; the model is polymorphic in the type
  \<open>'t\<close> of timestamps and only asks of it the operations the code uses (subtraction
  and comparison in \<^verbatim>\<open>update\<close>, the constant \<^verbatim>\<open>0.0\<close> in \<^verbatim>\<open>__init__\<close>, addition in
  \<^verbatim>\<open>run_simulation\<close>). The properties that need no arithmetic law are proved for every
  such type; the rate-limit property is proved for ordered groups such as the reals.
\<close>

subsection \<open>Data model\<close>

datatype State = IDLE | PRESENCE_DETECTED | IN_USE | WAIT_TO_FLUSH | FLUSHING | COOLDOWN

record 't Config =
  min_use_seconds :: 't
  flush_delay_seconds :: 't
  cooldown_seconds :: 't

record Metrics =
  flush_count :: int
  presence_events :: int

text \<open>
  The actuator is an external object whose only method is \<^verbatim>\<open>flush(now_s)\<close>. It is
  modelled by the list of the timestamps it was called with, oldest first. The call is
  taken to return, as that of \<^verbatim>\<open>ConsoleActuator\<close> does (it prints one line).
\<close>

type_synonym 't IActuator = "'t list"

record 't FlushController =
  cfg :: "'t Config"
  actuator :: "'t IActuator"
  state :: State
  state_enter_s :: 't
  presence_start_s :: "'t option"
  metrics :: Metrics

datatype error = AssertionError

subsection \<open>Construction\<close>

text \<open>
  \<^verbatim>\<open>Config\<close> is a plain \<^verbatim>\<open>@dataclass\<close>: the generated constructor stores each argument,
  or the field's default when the argument is omitted (\<open>None\<close> here), and has no
  \<^verbatim>\<open>__post_init__\<close>.
\<close>

definition Config_init :: "real option \<Rightarrow> real option \<Rightarrow> real option \<Rightarrow> real Config" where
  "Config_init a b c =
     \<lparr>min_use_seconds = (case a of None \<Rightarrow> 2.0 | Some x \<Rightarrow> x),
      flush_delay_seconds = (case b of None \<Rightarrow> 1.0 | Some x \<Rightarrow> x),
      cooldown_seconds = (case c of None \<Rightarrow> 8.0 | Some x \<Rightarrow> x)\<rparr>"

definition Metrics_init :: Metrics where
  "Metrics_init = \<lparr>flush_count = 0, presence_events = 0\<rparr>"

definition FlushController_init :: "('t::zero) Config \<Rightarrow> 't IActuator \<Rightarrow> 't FlushController" where
  "FlushController_init config act =
     \<lparr>cfg = config, actuator = act, state = IDLE, state_enter_s = 0,
      presence_start_s = None, metrics = Metrics_init\<rparr>"

subsection \<open>The transition function\<close>

definition enter :: "'t FlushController \<Rightarrow> State \<Rightarrow> 't \<Rightarrow> 't FlushController" where
  "enter c new_state now_s = c\<lparr>state := new_state, state_enter_s := now_s\<rparr>"

definition flush :: "'t IActuator \<Rightarrow> 't \<Rightarrow> 't IActuator" where
  "flush act now_s = act @ [now_s]"

text \<open>
  One call of \<^verbatim>\<open>update\<close>. The \<^verbatim>\<open>if/elif\<close> chain dispatches on the state the call starts
  in, so exactly one branch runs per call. The \<^verbatim>\<open>assert\<close> of the
  \<^verbatim>\<open>PRESENCE_DETECTED\<close> branch is the only place where the call can fail.
\<close>

definition update :: "('t::{minus,ord}) FlushController \<Rightarrow> 't \<Rightarrow> bool \<Rightarrow> error + 't FlushController" where
  "update c now_s presence =
     (case state c of
        IDLE \<Rightarrow>
          if presence then
            Inr (enter (c\<lparr>metrics := (metrics c)\<lparr>presence_events := presence_events (metrics c) + 1\<rparr>,
                          presence_start_s := Some now_s\<rparr>) PRESENCE_DETECTED now_s)
          else Inr c
      | PRESENCE_DETECTED \<Rightarrow>
          if \<not> presence then
            Inr (enter (c\<lparr>presence_start_s := None\<rparr>) IDLE now_s)
          else
            (case presence_start_s c of
               None \<Rightarrow> Inl AssertionError
             | Some start \<Rightarrow>
                 if now_s - start \<ge> min_use_seconds (cfg c) then Inr (enter c IN_USE now_s)
                 else Inr c)
      | IN_USE \<Rightarrow>
          if \<not> presence then Inr (enter c WAIT_TO_FLUSH now_s) else Inr c
      | WAIT_TO_FLUSH \<Rightarrow>
          if presence then Inr (enter c IN_USE now_s)
          else if now_s - state_enter_s c \<ge> flush_delay_seconds (cfg c) then
            Inr (enter c FLUSHING now_s)
          else Inr c
      | FLUSHING \<Rightarrow>
          Inr (enter (c\<lparr>actuator := flush (actuator c) now_s,
                        metrics := (metrics c)\<lparr>flush_count := flush_count (metrics c) + 1\<rparr>\<rparr>)
                 COOLDOWN now_s)
      | COOLDOWN \<Rightarrow>
          if now_s - state_enter_s c \<ge> cooldown_seconds (cfg c) then
            Inr (enter (c\<lparr>presence_start_s := None\<rparr>) IDLE now_s)
          else Inr c)"

text \<open>
  A sequence of \<^verbatim>\<open>update\<close> calls on one controller, each sample a pair of the timestamp
  and the presence value; an exception ends the sequence.
\<close>

fun updates :: "('t::{minus,ord}) FlushController \<Rightarrow> ('t \<times> bool) list \<Rightarrow> error + 't FlushController" where
  "updates c [] = Inr c"
| "updates c (s # ss) =
     (case update c (fst s) (snd s) of Inl e \<Rightarrow> Inl e | Inr c' \<Rightarrow> updates c' ss)"

text \<open>
  What a caller sees between the calls of such a sequence: the controller after each
  call that returned.
\<close>

fun trace :: "('t::{minus,ord}) FlushController \<Rightarrow> ('t \<times> bool) list \<Rightarrow> 't FlushController list" where
  "trace c [] = []"
| "trace c (s # ss) =
     (case update c (fst s) (snd s) of Inl e \<Rightarrow> [] | Inr c' \<Rightarrow> c' # trace c' ss)"


text \<open>Samples of one presence value at the given timestamps.\<close>

definition samples :: "bool \<Rightarrow> 't list \<Rightarrow> ('t \<times> bool) list" where
  "samples presence ts = map (\<lambda>t. (t, presence)) ts"

subsection \<open>The simulation\<close>

text \<open>
  \<^verbatim>\<open>ScriptedSensor.presence\<close>: presence holds at \<open>now_s\<close> when some interval has
  \<open>start \<le> now_s < end\<close>.
\<close>

definition ScriptedSensor_presence :: "(('t::ord) \<times> 't) list \<Rightarrow> 't \<Rightarrow> bool" where
  "ScriptedSensor_presence intervals now_s =
     list_ex (\<lambda>(start, end). start \<le> now_s \<and> now_s < end) intervals"

text \<open>
  The \<^verbatim>\<open>while t <= duration_s\<close> loop of \<^verbatim>\<open>run_simulation\<close>, from the current \<open>t\<close>. With a
  step that is not positive the loop does not end; the result is then \<open>None\<close>. An
  exception of \<^verbatim>\<open>update\<close> ends the run. The result is the controller after the last call
  (its metrics are what the function prints).
\<close>

partial_function (option) run_loop ::
  "('t \<Rightarrow> bool) \<Rightarrow> ('t::{plus,minus,ord}) FlushController \<Rightarrow> 't \<Rightarrow> 't \<Rightarrow> 't
     \<Rightarrow> (error + 't FlushController) option" where
  "run_loop sensor controller duration_s step_s t =
     (if t \<le> duration_s then
        (case update controller t (sensor t) of
           Inl e \<Rightarrow> Some (Inl e)
         | Inr c' \<Rightarrow> run_loop sensor c' duration_s step_s (t + step_s))
      else Some (Inr controller))"

declare run_loop.simps [code]

definition run_simulation ::
  "('t \<Rightarrow> bool) \<Rightarrow> ('t::{zero,plus,minus,ord}) FlushController \<Rightarrow> 't \<Rightarrow> 't
     \<Rightarrow> (error + 't FlushController) option" where
  "run_simulation sensor controller duration_s step_s =
     run_loop sensor controller duration_s step_s 0"

text \<open>
  The script at the end of the file: the configuration, a fresh controller, the three
  presence intervals, a run of 25 seconds in steps of 0.1. The parameter \<open>lit\<close> reads a
  decimal literal \<open>p / 10 ^ d\<close> of the source into the timestamp type.
\<close>

definition main :: "(int \<Rightarrow> nat \<Rightarrow> 't) \<Rightarrow> (error + ('t::{zero,plus,minus,ord}) FlushController) option" where
  "main lit =
     (let config = \<lparr>min_use_seconds = lit 20 1, flush_delay_seconds = lit 10 1,
                     cooldown_seconds = lit 80 1\<rparr>;
          controller = FlushController_init config [];
          intervals = [(lit 10 1, lit 16 1), (lit 50 1, lit 90 1), (lit 120 1, lit 123 1)]
      in run_simulation (ScriptedSensor_presence intervals) controller (lit 250 1) (lit 1 1))"

subsection \<open>Two readings of Python's floats\<close>

text \<open>Exact arithmetic: a literal is the real number it denotes.\<close>

definition real_of_decimal :: "int \<Rightarrow> nat \<Rightarrow> real" where
  "real_of_decimal p d = of_int p / 10 ^ d"

text \<open>
  Binary64 arithmetic, as Python computes: \<open>Double m e\<close> stands for \<open>m * 2 ^ e\<close>. A result
  is rounded to 53 significant bits, to nearest and to even on a tie; \<open>sticky\<close> tells
  that the exact value lies strictly above the integer \<open>m\<close> that was cut off from it
  (towards larger magnitude). The exponent is not bounded, so overflow to infinity is not
  modelled; there are no NaNs. Sums and differences of doubles that fall in the subnormal
  range are exact in binary64 and are exact here too.
\<close>

datatype double = Double int int

definition round53 :: "bool \<Rightarrow> int \<Rightarrow> int \<Rightarrow> double" where
  "round53 sticky m e =
     (let n = bitlen \<bar>m\<bar> in
      if n \<le> 53 then Double m e
      else
        let k = nat (n - 53);
            q = \<bar>m\<bar> div 2 ^ k;
            r = \<bar>m\<bar> mod 2 ^ k;
            h = 2 ^ (k - 1);
            q' = (if r > h \<or> (r = h \<and> (sticky \<or> odd q)) then q + 1 else q)
        in Double (sgn m * q') (e + int k))"

text \<open>The double nearest to the decimal literal \<open>p / 10 ^ d\<close>.\<close>

definition double_of_decimal :: "int \<Rightarrow> nat \<Rightarrow> double" where
  "double_of_decimal p d =
     (let q = 10 ^ d; s = 64 + nat (bitlen q) in
      round53 ((\<bar>p\<bar> * 2 ^ s) mod q \<noteq> 0) (sgn p * ((\<bar>p\<bar> * 2 ^ s) div q)) (- int s))"

instantiation double :: "{zero,plus,minus,ord}"
begin

definition zero_double :: double where
  "zero_double = Double 0 0"

fun plus_double :: "double \<Rightarrow> double \<Rightarrow> double" where
  "plus_double (Double m1 e1) (Double m2 e2) =
     (let e = min e1 e2 in round53 False (m1 * 2 ^ nat (e1 - e) + m2 * 2 ^ nat (e2 - e)) e)"

fun minus_double :: "double \<Rightarrow> double \<Rightarrow> double" where
  "minus_double (Double m1 e1) (Double m2 e2) =
     (let e = min e1 e2 in round53 False (m1 * 2 ^ nat (e1 - e) - m2 * 2 ^ nat (e2 - e)) e)"

fun less_eq_double :: "double \<Rightarrow> double \<Rightarrow> bool" where
  "less_eq_double (Double m1 e1) (Double m2 e2) =
     (let e = min e1 e2 in m1 * 2 ^ nat (e1 - e) \<le> m2 * 2 ^ nat (e2 - e))"

fun less_double :: "double \<Rightarrow> double \<Rightarrow> bool" where
  "less_double (Double m1 e1) (Double m2 e2) =
     (let e = min e1 e2 in m1 * 2 ^ nat (e1 - e) < m2 * 2 ^ nat (e2 - e))"

instance ..

end

section \<open>The start-timestamp invariant\<close>

lemma update_idle_iff:
  assumes "(state c = IDLE) = (presence_start_s c = None)"
  shows "\<exists>c'. update c now_s presence = Inr c' \<and> cfg c' = cfg c
           \<and> ((state c' = IDLE) = (presence_start_s c' = None))"
  using assms by (cases "state c") (auto simp: update_def enter_def)

lemma updates_idle_iff:
  assumes "(state c = IDLE) = (presence_start_s c = None)"
  shows "\<exists>c'. updates c ss = Inr c' \<and> cfg c' = cfg c
           \<and> ((state c' = IDLE) = (presence_start_s c' = None))"
  using assms
proof (induction ss arbitrary: c)
  case Nil
  then show ?case by simp
next
  case (Cons s ss)
  from update_idle_iff [OF Cons.prems, of "fst s" "snd s"]
  obtain c1 where c1: "update c (fst s) (snd s) = Inr c1" "cfg c1 = cfg c"
    "(state c1 = IDLE) = (presence_start_s c1 = None)" by auto
  from Cons.IH [OF c1(3)] c1(1,2) show ?case by auto
qed

lemma init_idle_iff:
  "(state (FlushController_init config act) = IDLE)
     = (presence_start_s (FlushController_init config act) = None)"
  by (simp add: FlushController_init_def)

lemmas model_defs =
  update_def enter_def flush_def FlushController_init_def Config_init_def Metrics_init_def

text \<open>
  C3. The claim: in every reachable state \<^verbatim>\<open>presence_start_s\<close> is set when the state is
  \<^verbatim>\<open>PRESENCE_DETECTED\<close> and absent in every other state. The second half fails: the
  promotion to \<^verbatim>\<open>IN_USE\<close> keeps the timestamp. With the default configuration, presence
  at 0 and at 2 leaves the controller in \<^verbatim>\<open>IN_USE\<close> with the timestamp still 0.
\<close>

theorem presence_start_kept_in_use:
  "updates (FlushController_init (Config_init None None None) []) [(0, True), (2, True)]
     = Inr \<lparr>cfg = Config_init None None None, actuator = [], state = IN_USE,
            state_enter_s = 2, presence_start_s = Some 0,
            metrics = \<lparr>flush_count = 0, presence_events = 1\<rparr>\<rparr>"
  by (simp add: model_defs)

text \<open>
  C3, as the code has it: after any sequence of \<^verbatim>\<open>update\<close> calls on a fresh controller
  (whatever the timestamps), \<^verbatim>\<open>presence_start_s\<close> is absent exactly when the state is
  \<^verbatim>\<open>IDLE\<close>. So it is set in \<^verbatim>\<open>PRESENCE_DETECTED\<close>, and it stays set through \<^verbatim>\<open>IN_USE\<close>,
  \<^verbatim>\<open>WAIT_TO_FLUSH\<close>, \<^verbatim>\<open>FLUSHING\<close> and \<^verbatim>\<open>COOLDOWN\<close> until the return to \<^verbatim>\<open>IDLE\<close> clears it.
\<close>

theorem presence_start_absent_iff_idle:
  assumes "updates (FlushController_init config act) ss = Inr c"
  shows "(state c = IDLE) = (presence_start_s c = None)
         \<and> (state c = PRESENCE_DETECTED \<longrightarrow> presence_start_s c \<noteq> None)"
  using updates_idle_iff [OF init_idle_iff, of config act ss] assms by auto

theorem presence_start_absent_iff_idle_witness:
  "updates (FlushController_init (Config_init None None None) []) [(1, True), (1.5, True)]
     = Inr \<lparr>cfg = Config_init None None None, actuator = [], state = PRESENCE_DETECTED,
            state_enter_s = 1, presence_start_s = Some 1,
            metrics = \<lparr>flush_count = 0, presence_events = 1\<rparr>\<rparr>
   \<and> presence_start_s \<lparr>cfg = Config_init None None None, actuator = [], state = PRESENCE_DETECTED,
            state_enter_s = 1, presence_start_s = Some (1::real),
            metrics = \<lparr>flush_count = 0, presence_events = 1\<rparr>\<rparr> \<noteq> None"
proof -
  have run: "updates (FlushController_init (Config_init None None None) []) [(1, True), (1.5, True)]
     = Inr \<lparr>cfg = Config_init None None None, actuator = [], state = PRESENCE_DETECTED,
            state_enter_s = 1, presence_start_s = Some 1,
            metrics = \<lparr>flush_count = 0, presence_events = 1\<rparr>\<rparr>"
    by (simp add: model_defs)
  from presence_start_absent_iff_idle [OF run] run show ?thesis by simp
qed

section \<open>The assertion of the \<^verbatim>\<open>PRESENCE_DETECTED\<close> branch\<close>

text \<open>
  C10. No sequence of \<^verbatim>\<open>update\<close> calls on a fresh controller raises: every call returns,
  and whenever the controller is in \<^verbatim>\<open>PRESENCE_DETECTED\<close> the start timestamp is set, so
  the assertion of that branch holds at the next call.
\<close>

theorem update_never_raises:
  "\<exists>c. updates (FlushController_init config act) ss = Inr c
       \<and> (state c = PRESENCE_DETECTED \<longrightarrow> presence_start_s c \<noteq> None)
       \<and> update c now_s presence \<noteq> Inl AssertionError"
proof -
  from updates_idle_iff [OF init_idle_iff, of config act ss]
  obtain c where c: "updates (FlushController_init config act) ss = Inr c"
    "(state c = IDLE) = (presence_start_s c = None)" by auto
  from update_idle_iff [OF c(2), of now_s presence]
  have "update c now_s presence \<noteq> Inl AssertionError" by auto
  with c show ?thesis by auto
qed

theorem update_never_raises_witness:
  "updates (FlushController_init (Config_init None None None) []) [(3, True)]
     = Inr \<lparr>cfg = Config_init None None None, actuator = [], state = PRESENCE_DETECTED,
            state_enter_s = 3, presence_start_s = Some 3,
            metrics = \<lparr>flush_count = 0, presence_events = 1\<rparr>\<rparr>
   \<and> update \<lparr>cfg = Config_init None None None, actuator = [], state = PRESENCE_DETECTED,
            state_enter_s = 3, presence_start_s = Some 3,
            metrics = \<lparr>flush_count = 0, presence_events = 1\<rparr>\<rparr> 4 True \<noteq> Inl AssertionError"
  using update_never_raises [of "Config_init None None None" "[]" "[(3, True)]" 4 True]
  by (simp add: model_defs)

section \<open>Single calls\<close>

text \<open>
  C8. In every \<^verbatim>\<open>update\<close> call that returns: if the call started in \<^verbatim>\<open>FLUSHING\<close>,
  \<^verbatim>\<open>flush_count\<close> grows by exactly one and the actuator is called exactly once, with the
  call's timestamp; otherwise \<^verbatim>\<open>flush_count\<close> and the actuator's call list are unchanged.
  Neither counter ever decreases.
\<close>

theorem flush_count_only_in_flushing:
  assumes "update c now_s presence = Inr c'"
  shows "(if state c = FLUSHING
          then flush_count (metrics c') = flush_count (metrics c) + 1
               \<and> actuator c' = actuator c @ [now_s]
          else flush_count (metrics c') = flush_count (metrics c)
               \<and> actuator c' = actuator c)
         \<and> flush_count (metrics c) \<le> flush_count (metrics c')
         \<and> presence_events (metrics c) \<le> presence_events (metrics c')"
  using assms
  by (cases "state c") (auto simp: update_def enter_def flush_def split: if_splits option.splits)

theorem flush_count_only_in_flushing_witness:
  "update \<lparr>cfg = Config_init None None None, actuator = [], state = FLUSHING,
           state_enter_s = 10, presence_start_s = Some 5,
           metrics = \<lparr>flush_count = 0, presence_events = 2\<rparr>\<rparr> 10.1 False
     = Inr \<lparr>cfg = Config_init None None None, actuator = [10.1], state = COOLDOWN,
            state_enter_s = 10.1, presence_start_s = Some 5,
            metrics = \<lparr>flush_count = 1, presence_events = 2\<rparr>\<rparr>
   \<and> flush_count \<lparr>flush_count = 1, presence_events = 2\<rparr>
       = flush_count \<lparr>flush_count = 0, presence_events = 2\<rparr> + 1"
proof -
  have step: "update \<lparr>cfg = Config_init None None None, actuator = [], state = FLUSHING,
           state_enter_s = 10, presence_start_s = Some 5,
           metrics = \<lparr>flush_count = 0, presence_events = 2\<rparr>\<rparr> 10.1 False
     = Inr \<lparr>cfg = Config_init None None None, actuator = [10.1], state = COOLDOWN,
            state_enter_s = 10.1, presence_start_s = Some 5,
            metrics = \<lparr>flush_count = 1, presence_events = 2\<rparr>\<rparr>"
    by (simp add: model_defs)
  from flush_count_only_in_flushing [OF step] step show ?thesis by simp
qed

text \<open>
  C9. A call made in \<^verbatim>\<open>COOLDOWN\<close> before \<^verbatim>\<open>cooldown_seconds\<close> have elapsed since the state
  was entered changes nothing, whatever the presence value: the state, both timestamps,
  both counters and the actuator's call list are the same afterwards. In particular a
  presence onset in this window is not counted in \<^verbatim>\<open>presence_events\<close>.
\<close>

theorem cooldown_frame:
  fixes c :: "('t::{minus,preorder}) FlushController"
  assumes "state c = COOLDOWN"
    and "now_s - state_enter_s c < cooldown_seconds (cfg c)"
  shows "update c now_s presence = Inr c"
  using assms by (auto simp: update_def less_le_not_le)

theorem cooldown_frame_witness:
  "update \<lparr>cfg = Config_init None None None, actuator = [10.1], state = COOLDOWN,
           state_enter_s = 10.1, presence_start_s = Some 5,
           metrics = \<lparr>flush_count = 1, presence_events = 2\<rparr>\<rparr> 12 True
     = Inr \<lparr>cfg = Config_init None None None, actuator = [10.1], state = COOLDOWN,
            state_enter_s = 10.1, presence_start_s = Some 5,
            metrics = \<lparr>flush_count = 1, presence_events = 2\<rparr>\<rparr>"
  using cooldown_frame [of "\<lparr>cfg = Config_init None None None, actuator = [10.1], state = COOLDOWN,
           state_enter_s = 10.1, presence_start_s = Some 5,
           metrics = \<lparr>flush_count = 1, presence_events = 2\<rparr>\<rparr>" 12 True]
  by (simp add: Config_init_def)

section \<open>\<^verbatim>\<open>FLUSHING\<close> between calls\<close>




section \<open>Construction of a configuration\<close>

text \<open>
  C4. The claim: constructing a \<^verbatim>\<open>Config\<close> with a negative duration is rejected, and every
  constructed \<^verbatim>\<open>Config\<close> has three non-negative durations. It fails: the dataclass has no
  check, and \<^verbatim>\<open>Config(min_use_seconds=-1.0)\<close> is a configuration like any other.
\<close>

theorem negative_duration_accepted:
  "\<not> (0 \<le> min_use_seconds (Config_init (Some (- 1)) None None))"
  by (simp add: Config_init_def)

text \<open>
  C4, as the code has it: construction never fails and checks nothing. Each field of the
  result is the argument given for it, negative or not, and the default (2.0, 1.0 and 8.0
  seconds) where the argument is omitted.
\<close>

theorem config_stores_arguments:
  "min_use_seconds (Config_init (Some a) b c) = a
   \<and> flush_delay_seconds (Config_init a' (Some b') c') = b'
   \<and> cooldown_seconds (Config_init a'' b'' (Some c'')) = c''
   \<and> Config_init None None None
       = \<lparr>min_use_seconds = 2, flush_delay_seconds = 1, cooldown_seconds = 8\<rparr>"
  by (simp add: Config_init_def)

section \<open>Runs of calls\<close>

lemma updates_append:
  "updates c (xs @ ys) = (case updates c xs of Inl e \<Rightarrow> Inl e | Inr c' \<Rightarrow> updates c' ys)"
  by (induction xs arbitrary: c) (auto split: sum.splits)

lemma detected_stays:
  fixes c :: "('t::{minus,preorder}) FlushController"
  assumes "state c = PRESENCE_DETECTED" and "presence_start_s c = Some t0"
    and "\<forall>t\<in>set ts. t - t0 < min_use_seconds (cfg c)"
  shows "updates c (samples True ts) = Inr c \<and> trace c (samples True ts) = replicate (length ts) c"
  using assms
  by (induction ts) (auto simp: samples_def update_def less_le_not_le)


subsection \<open>A short presence\<close>

text \<open>
  C7. Starting from \<^verbatim>\<open>IDLE\<close>, a presence episode sampled at \<open>t0\<close> and then at timestamps
  \<open>ts\<close> that all satisfy \<open>t - t0 < min_use_seconds\<close>, followed by an absence sample: after
  every call of the episode the state is \<^verbatim>\<open>PRESENCE_DETECTED\<close> (never \<^verbatim>\<open>IN_USE\<close>), the
  actuator has not been called and \<^verbatim>\<open>flush_count\<close> is unchanged; the absence sample takes
  the controller back to \<^verbatim>\<open>IDLE\<close>, one presence event counted and nothing else changed.
\<close>

theorem short_presence_never_in_use:
  fixes c :: "('t::{minus,preorder}) FlushController"
  assumes "state c = IDLE" and "\<forall>t\<in>set ts. t - t0 < min_use_seconds (cfg c)"
  shows "list_all (\<lambda>c'. state c' = PRESENCE_DETECTED \<and> actuator c' = actuator c
                      \<and> flush_count (metrics c') = flush_count (metrics c))
            (trace c (samples True (t0 # ts)))
         \<and> length (trace c (samples True (t0 # ts))) = length (t0 # ts)
         \<and> updates c (samples True (t0 # ts) @ [(t_end, False)])
             = Inr (c\<lparr>metrics := (metrics c)\<lparr>presence_events := presence_events (metrics c) + 1\<rparr>,
                      presence_start_s := None, state_enter_s := t_end\<rparr>)"
proof -
  let ?c1 = "enter (c\<lparr>metrics := (metrics c)\<lparr>presence_events := presence_events (metrics c) + 1\<rparr>,
                      presence_start_s := Some t0\<rparr>) PRESENCE_DETECTED t0"
  have first: "update c t0 True = Inr ?c1"
    using assms(1) by (simp add: update_def)
  have "state ?c1 = PRESENCE_DETECTED" "presence_start_s ?c1 = Some t0"
    "\<forall>t\<in>set ts. t - t0 < min_use_seconds (cfg ?c1)"
    using assms(2) by (simp_all add: enter_def)
  from detected_stays [OF this]
  have rest: "updates ?c1 (samples True ts) = Inr ?c1"
    "trace ?c1 (samples True ts) = replicate (length ts) ?c1" by simp_all
  have tr: "trace c (samples True (t0 # ts)) = ?c1 # replicate (length ts) ?c1"
    using first rest(2) by (simp add: samples_def)
  have up: "updates c (samples True (t0 # ts)) = Inr ?c1"
    using first rest(1) by (simp add: samples_def)
  have final: "update ?c1 t_end False
     = Inr (c\<lparr>metrics := (metrics c)\<lparr>presence_events := presence_events (metrics c) + 1\<rparr>,
                      presence_start_s := None, state_enter_s := t_end\<rparr>)"
    using assms(1) by (simp add: update_def enter_def)
  show ?thesis
    using tr up final by (simp add: updates_append list_all_iff enter_def)
qed

theorem short_presence_never_in_use_witness:
  "updates (FlushController_init (Config_init None None None) [])
       [(1, True), (1.1, True), (1.5, True), (1.6, False)]
     = Inr \<lparr>cfg = Config_init None None None, actuator = [], state = IDLE,
            state_enter_s = 1.6, presence_start_s = None,
            metrics = \<lparr>flush_count = 0, presence_events = 1\<rparr>\<rparr>
   \<and> map state (trace (FlushController_init (Config_init None None None) [])
                   [(1, True), (1.1, True), (1.5, True)])
       = [PRESENCE_DETECTED, PRESENCE_DETECTED, PRESENCE_DETECTED]"
  using short_presence_never_in_use
    [of "FlushController_init (Config_init None None None) []" "[1.1, 1.5]" 1 "1.6"]
  by (simp add: model_defs samples_def)

subsection \<open>The rate limit\<close>







subsection \<open>A use followed by absence\<close>








section \<open>The scripted scenario\<close>

text \<open>
  Three known facts of binary64 arithmetic, as a check of the model: the double of the
  literal \<open>0.1\<close> is \<open>0x1.999999999999ap-4\<close>; \<open>0.1 + 0.2\<close> is
  \<open>0x1.3333333333334p-2\<close>, above the double of \<open>0.3\<close>; and ten additions of \<open>0.1\<close>
  starting from zero give the double just below \<open>1.0\<close>.
\<close>

lemma binary64_tenth:
  "double_of_decimal 1 1 = Double 7205759403792794 (- 56)"
  by code_simp

lemma binary64_sum_above:
  "double_of_decimal 1 1 + double_of_decimal 2 1 = Double 5404319552844596 (- 54)
   \<and> double_of_decimal 3 1 < double_of_decimal 1 1 + double_of_decimal 2 1"
  by code_simp

lemma binary64_ten_tenths:
  "((\<lambda>t. t + double_of_decimal 1 1) ^^ 10) 0 = Double 9007199254740991 (- 53)
   \<and> ((\<lambda>t. t + double_of_decimal 1 1) ^^ 10) 0 < double_of_decimal 10 1"
  by code_simp

lemma main_binary64:
  "main double_of_decimal
     = Some (Inr \<lparr>cfg = \<lparr>min_use_seconds = double_of_decimal 20 1,
                          flush_delay_seconds = double_of_decimal 10 1,
                          cooldown_seconds = double_of_decimal 80 1\<rparr>,
                  actuator = [Double 5798384520239502 (- 49)], state = IDLE,
                  state_enter_s = Double 5150992073805002 (- 48), presence_start_s = None,
                  metrics = \<lparr>flush_count = 1, presence_events = 2\<rparr>\<rparr>)"
  by code_simp

lemma main_exact:
  "main real_of_decimal
     = Some (Inr \<lparr>cfg = \<lparr>min_use_seconds = 2, flush_delay_seconds = 1, cooldown_seconds = 8\<rparr>,
                  actuator = [10.1], state = IDLE,
                  state_enter_s = 18.1, presence_start_s = None,
                  metrics = \<lparr>flush_count = 1, presence_events = 2\<rparr>\<rparr>)"
  by (simp add: main_def run_simulation_def run_loop.simps ScriptedSensor_presence_def
        real_of_decimal_def update_def enter_def flush_def FlushController_init_def
        Metrics_init_def)

text \<open>
  C2. The claim: the scripted run ends with \<^verbatim>\<open>flush_count = 1\<close> and
  \<^verbatim>\<open>presence_events = 3\<close>, its one trigger fired at \<open>now = 10.0\<close>. The run ends with
  \<^verbatim>\<open>presence_events = 2\<close>: the third episode begins while the controller is in
  \<^verbatim>\<open>COOLDOWN\<close>, where presence is not looked at, and it is over before the cooldown ends.
\<close>

theorem main_counts_two_presence_events:
  "map_option (map_sum id metrics) (main double_of_decimal)
     = Some (Inr \<lparr>flush_count = 1, presence_events = 2\<rparr>)"
  by (simp add: main_binary64)

text \<open>
  C2, as the code has it. The run returns, with one actuator call, \<^verbatim>\<open>flush_count = 1\<close> and
  \<^verbatim>\<open>presence_events = 2\<close>. The first episode causes no trigger and the third, inside the
  cooldown, causes none and is not counted. The trigger of the second episode is fired by
  the call after the one that finds one second of absence elapsed. In binary64
  arithmetic, where the accumulated sample times fall just below the interval bounds and
  presence is seen one sample later, that is the sample \<open>5798384520239502 * 2 ^ - 49\<close>,
  between 10.2 and 10.3; in exact arithmetic it is the sample 10.1.
\<close>

theorem main_one_flush_two_presence_events:
  "main double_of_decimal
     = Some (Inr \<lparr>cfg = \<lparr>min_use_seconds = double_of_decimal 20 1,
                          flush_delay_seconds = double_of_decimal 10 1,
                          cooldown_seconds = double_of_decimal 80 1\<rparr>,
                  actuator = [Double 5798384520239502 (- 49)], state = IDLE,
                  state_enter_s = Double 5150992073805002 (- 48), presence_start_s = None,
                  metrics = \<lparr>flush_count = 1, presence_events = 2\<rparr>\<rparr>)
   \<and> double_of_decimal 102 1 < Double 5798384520239502 (- 49)
   \<and> Double 5798384520239502 (- 49) < double_of_decimal 103 1
   \<and> main real_of_decimal
     = Some (Inr \<lparr>cfg = \<lparr>min_use_seconds = 2, flush_delay_seconds = 1, cooldown_seconds = 8\<rparr>,
                  actuator = [10.1], state = IDLE,
                  state_enter_s = 18.1, presence_start_s = None,
                  metrics = \<lparr>flush_count = 1, presence_events = 2\<rparr>\<rparr>)"
proof -
  have "double_of_decimal 102 1 < Double 5798384520239502 (- 49)"
    by code_simp
  moreover have "Double 5798384520239502 (- 49) < double_of_decimal 103 1"
    by code_simp
  ultimately show ?thesis
    using main_binary64 main_exact by simp
qed

end
